theory Spec2Isabelle
  imports Main
begin

section \<open>JavaScript values\<close>

text \<open>
  The option fields of \<^verbatim>\<open>api.js\<close> are untyped JavaScript values: the HTTP handlers pass
  request parameters (strings or \<^verbatim>\<open>undefined\<close>), a direct caller passes numbers.
  \<open>JNum\<close> carries the integer-valued numbers; fractional numbers and the infinities are
  left out of the model.
\<close>

datatype jsval = JUndefined | JNull | JBool bool | JNum int | JNaN | JStr string

text \<open>ToBoolean: what \<^verbatim>\<open>||\<close> and \<^verbatim>\<open>!\<close> test.\<close>

fun truthy :: "jsval \<Rightarrow> bool" where
  "truthy JUndefined = False"
| "truthy JNull = False"
| "truthy (JBool b) = b"
| "truthy (JNum n) = (n \<noteq> 0)"
| "truthy JNaN = False"
| "truthy (JStr s) = (s \<noteq> [])"

text \<open>\<^verbatim>\<open>a || b\<close>\<close>

definition js_or :: "jsval \<Rightarrow> jsval \<Rightarrow> jsval" where
  "js_or a b = (if truthy a then a else b)"

text \<open>
  \<^verbatim>\<open>v > n\<close> for a number \<open>n\<close>: both sides go through ToNumber (\<^verbatim>\<open>undefined\<close> is NaN,
  \<^verbatim>\<open>null\<close> is 0, \<^verbatim>\<open>true\<close> is 1) and a NaN compares false. What a string converts to is
  the runtime's business: \<open>sgt s n\<close> is the runtime's answer to \<^verbatim>\<open>s > n\<close>.
\<close>

fun js_gt :: "(string \<Rightarrow> int \<Rightarrow> bool) \<Rightarrow> jsval \<Rightarrow> int \<Rightarrow> bool" where
  "js_gt sgt JUndefined n = False"
| "js_gt sgt JNull n = (0 > n)"
| "js_gt sgt (JBool b) n = ((if b then 1 else 0) > n)"
| "js_gt sgt (JNum m) n = (m > n)"
| "js_gt sgt JNaN n = False"
| "js_gt sgt (JStr s) n = sgt s n"

text \<open>\<^verbatim>\<open>v === true\<close>\<close>

fun js_is_true :: "jsval \<Rightarrow> bool" where
  "js_is_true (JBool b) = b"
| "js_is_true v = False"

section \<open>Data\<close>

text \<open>The \<^verbatim>\<open>options\<close> object of \<^verbatim>\<open>store\<close> and \<^verbatim>\<open>generate\<close>; an absent field is \<open>JUndefined\<close>.\<close>

record options =
  width :: jsval
  height :: jsval
  delay :: jsval
  userAgent :: jsval
  full :: jsval

text \<open>The literal \<^verbatim>\<open>{}\<close>.\<close>

definition empty_options :: options where
  "empty_options =
     \<lparr>width = JUndefined, height = JUndefined, delay = JUndefined,
      userAgent = JUndefined, full = JUndefined\<rparr>"

text \<open>
  The object \<^verbatim>\<open>screengrab\<close> hands to \<^verbatim>\<open>webshot\<close>: \<open>windowSize_width\<close> is
  \<^verbatim>\<open>windowSize.width\<close>, and so on; \<open>phantomConfig\<close> lists its keys and values.
\<close>

record webshotOptions =
  renderDelay :: jsval
  windowSize_width :: jsval
  windowSize_height :: jsval
  shotSize_width :: string
  shotSize_height :: string
  webshot_userAgent :: jsval
  phantomConfig :: "(string \<times> jsval) list"

text \<open>\<^verbatim>\<open>new Date(year, monthIndex, day)\<close>\<close>

datatype js_date = Date int int int

text \<open>The parameters of \<^verbatim>\<open>s3.upload\<close>; \<open>Body\<close> is what the read stream yields (\<open>None\<close>: no such file).\<close>

record s3_params =
  Body :: "string option"
  Bucket :: string
  CacheControl :: string
  ContentType :: string
  Expires :: js_date
  Key :: string

text \<open>An error of the AWS client: \<^verbatim>\<open>err.code\<close> and \<^verbatim>\<open>err.message\<close>.\<close>

record aws_error =
  aws_code :: string
  aws_message :: string

text \<open>
  The error objects \<^verbatim>\<open>api.js\<close> hands to its callbacks. Some carry their text under the
  key \<^verbatim>\<open>msg\<close>, others under \<^verbatim>\<open>message\<close>; a key that is not set reads as \<^verbatim>\<open>undefined\<close>.
\<close>

record api_error =
  code :: nat
  msg :: "string option"
  message :: "string option"

text \<open>What the program does to the outside, in order.\<close>

datatype event =
    GetObject string string
  | Webshot string string webshotOptions
  | Upload s3_params
  | Unlink string

text \<open>
  The collaborators, none of them part of the repository, are parameters:
  the environment variables, Node's \<^verbatim>\<open>path.join\<close> and \<^verbatim>\<open>url.parse\<close>, the comparison of a
  string with a number, \<^verbatim>\<open>temp.path\<close> (the \<open>n\<close>-th fresh path), the renderer (the bytes of
  the image, or \<open>None\<close> when it fails), the faults of the storage service and of
  \<^verbatim>\<open>fs.unlink\<close>, and the signing of a URL (operation, bucket, key).
\<close>

record parsed_url =
  protocol :: "string option"
  hostname :: "string option"
  pathname :: "string option"

record env =
  AWS_S3_BUCKET :: string
  AWS_S3_DIRECTORY :: string
  path_join :: "string \<Rightarrow> string \<Rightarrow> string"
  url_parse :: "string \<Rightarrow> parsed_url"
  string_gt :: "string \<Rightarrow> int \<Rightarrow> bool"
  temp_path :: "nat \<Rightarrow> string"
  webshot_render :: "string \<Rightarrow> webshotOptions \<Rightarrow> string option"
  getObject_fault :: "string \<Rightarrow> aws_error option"
  upload_fault :: "string \<Rightarrow> aws_error option"
  unlink_fault :: "string \<Rightarrow> bool"
  getSignedUrl :: "string \<Rightarrow> string \<Rightarrow> string \<Rightarrow> string"

text \<open>
  The state outside the process: the objects of the bucket by key, the files on the local
  disk by path, how many temporary paths were handed out, and the trace of events.
\<close>

record world =
  s3_objects :: "string \<rightharpoonup> s3_params"
  files :: "string \<rightharpoonup> string"
  temp_count :: nat
  trace :: "event list"

section \<open>The collaborators\<close>

text \<open>
  \<^verbatim>\<open>s3.getObject\<close>: a fault of the service, else \<^verbatim>\<open>NoSuchKey\<close> when the bucket holds nothing
  under the key, else the object.
\<close>

definition s3_getObject :: "env \<Rightarrow> world \<Rightarrow> string \<Rightarrow> string \<Rightarrow> (aws_error + s3_params) \<times> world" where
  "s3_getObject e w bucket key =
     (let w' = w\<lparr>trace := trace w @ [GetObject bucket key]\<rparr> in
      case getObject_fault e key of
        Some err \<Rightarrow> (Inl err, w')
      | None \<Rightarrow>
          (case s3_objects w key of
             None \<Rightarrow> (Inl \<lparr>aws_code = ''NoSuchKey'', aws_message = ''The specified key does not exist.''\<rparr>, w')
           | Some obj \<Rightarrow> (Inr obj, w')))"

text \<open>\<^verbatim>\<open>s3.upload\<close>: the object is written unless the stream or the service fails.\<close>

definition s3_upload :: "env \<Rightarrow> world \<Rightarrow> s3_params \<Rightarrow> aws_error option \<times> world" where
  "s3_upload e w params =
     (let w' = w\<lparr>trace := trace w @ [Upload params]\<rparr> in
      case Body params of
        None \<Rightarrow> (Some \<lparr>aws_code = ''ENOENT'', aws_message = ''no such file''\<rparr>, w')
      | Some bytes \<Rightarrow>
          (case upload_fault e (Key params) of
             Some err \<Rightarrow> (Some err, w')
           | None \<Rightarrow> (None, w'\<lparr>s3_objects := (s3_objects w)(Key params \<mapsto> params)\<rparr>)))"

text \<open>\<^verbatim>\<open>fs.unlink\<close>: \<open>True\<close> is an error (a fault, or no such file); else the file is gone.\<close>

definition fs_unlink :: "env \<Rightarrow> world \<Rightarrow> string \<Rightarrow> bool \<times> world" where
  "fs_unlink e w p =
     (let w' = w\<lparr>trace := trace w @ [Unlink p]\<rparr> in
      if unlink_fault e p \<or> files w p = None then (True, w')
      else (False, w'\<lparr>files := (files w)(p := None)\<rparr>))"

text \<open>\<^verbatim>\<open>webshot\<close>: \<open>True\<close> is an error; else the image is written at the path.\<close>

definition webshot :: "env \<Rightarrow> world \<Rightarrow> string \<Rightarrow> string \<Rightarrow> webshotOptions \<Rightarrow> bool \<times> world" where
  "webshot e w url p wo =
     (let w' = w\<lparr>trace := trace w @ [Webshot url p wo]\<rparr> in
      case webshot_render e url wo of
        None \<Rightarrow> (True, w')
      | Some bytes \<Rightarrow> (False, w'\<lparr>files := (files w)(p \<mapsto> bytes)\<rparr>))"

section \<open>api.js\<close>

definition getS3Key :: "env \<Rightarrow> string \<Rightarrow> string" where
  "getS3Key e name = path_join e (AWS_S3_DIRECTORY e) name"

definition checkFileExists :: "env \<Rightarrow> world \<Rightarrow> string \<Rightarrow> (api_error + bool) \<times> world" where
  "checkFileExists e w name =
     (case s3_getObject e w (AWS_S3_BUCKET e) (getS3Key e name) of
        (Inl err, w') \<Rightarrow>
          if aws_code err \<noteq> ''NoSuchKey''
          then (Inl \<lparr>code = 500, msg = None, message = Some (aws_message err)\<rparr>, w')
          else (Inr False, w')
      | (Inr data, w') \<Rightarrow> (Inr True, w'))"

definition screengrab :: "env \<Rightarrow> world \<Rightarrow> string \<Rightarrow> options \<Rightarrow> (api_error + string) \<times> world" where
  "screengrab e w url opts =
     (let tempPath = temp_path e (temp_count w);
          w1 = w\<lparr>temp_count := Suc (temp_count w)\<rparr>;
          webshotOptions =
            \<lparr>renderDelay = delay opts,
             windowSize_width = width opts,
             windowSize_height = height opts,
             shotSize_width = ''window'',
             shotSize_height = (if js_is_true (full opts) then ''all'' else ''window''),
             webshot_userAgent = userAgent opts,
             phantomConfig = [(''ignore-ssl-errors'', JBool True), (''ssl-protocol'', JStr ''any'')]\<rparr>
      in case webshot e w1 url tempPath webshotOptions of
           (True, w2) \<Rightarrow> (Inl \<lparr>code = 500, msg = Some ''Unable to take a screenshot'', message = None\<rparr>, w2)
         | (False, w2) \<Rightarrow> (Inr tempPath, w2))"

text \<open>\<open>None\<close> is a call without an options object (\<^verbatim>\<open>options || {}\<close>).\<close>

definition generate :: "env \<Rightarrow> world \<Rightarrow> string \<Rightarrow> options option \<Rightarrow> (api_error + string) \<times> world" where
  "generate e w url options =
     (let opts = (case options of None \<Rightarrow> empty_options | Some given \<Rightarrow> given);
          opts = opts\<lparr>width := js_or (width opts) (JNum 1024)\<rparr>;
          opts = opts\<lparr>height := js_or (height opts) (JNum 768)\<rparr>;
          opts = opts\<lparr>delay := js_or (delay opts) (JNum 0)\<rparr>;
          opts = opts\<lparr>userAgent := js_or (userAgent opts) (JStr [])\<rparr>;
          opts = (if js_gt (string_gt e) (delay opts) 10000 then opts\<lparr>delay := JNum 10000\<rparr> else opts)
      in screengrab e w url opts)"

definition store :: "env \<Rightarrow> world \<Rightarrow> string \<Rightarrow> string \<Rightarrow> options option \<Rightarrow> api_error option \<times> world" where
  "store e w name url options =
     (case checkFileExists e w name of
        (Inl err, w1) \<Rightarrow> (Some err, w1)
      | (Inr exists, w1) \<Rightarrow>
          if exists
          then (Some \<lparr>code = 400, msg = Some ''A URL by that name already exists'', message = None\<rparr>, w1)
          else
            (case generate e w1 url options of
               (Inl err, w2) \<Rightarrow> (Some err, w2)
             | (Inr imagePath, w2) \<Rightarrow>
                 (case s3_upload e w2
                         \<lparr>Body = files w2 imagePath,
                          Bucket = AWS_S3_BUCKET e,
                          CacheControl = ''max-age=315360000'',
                          ContentType = ''image/jpeg'',
                          Expires = Date 2035 1 1,
                          Key = getS3Key e name\<rparr> of
                    (uploadError, w3) \<Rightarrow>
                      (case fs_unlink e w3 imagePath of
                         (unlinkError, w4) \<Rightarrow>
                           if uploadError \<noteq> None
                           then (Some \<lparr>code = 500, msg = None,
                                       message = Some ''Unable to upload the rendered image of the website to S3''\<rparr>, w4)
                           else (None, w4)))))"

definition getStoredImageUrl :: "env \<Rightarrow> world \<Rightarrow> string \<Rightarrow> (api_error + string) \<times> world" where
  "getStoredImageUrl e w name =
     (case checkFileExists e w name of
        (Inl err, w1) \<Rightarrow> (Inl err, w1)
      | (Inr exists, w1) \<Rightarrow>
          if \<not> exists
          then (Inl \<lparr>code = 404, msg = Some ''A URL by that name does not exist'', message = None\<rparr>, w1)
          else (Inr (getSignedUrl e ''getObject'' (AWS_S3_BUCKET e) (getS3Key e name)), w1))"

section \<open>The request handlers\<close>

text \<open>
  \<^verbatim>\<open>req.param\<close>: the value of a request parameter, \<open>None\<close> when the request has none
  (\<^verbatim>\<open>undefined\<close>).
\<close>

type_synonym request = "string \<Rightarrow> string option"

datatype body = Text string | No_body | Url_object string

text \<open>
  \<^verbatim>\<open>res.send(status, body)\<close>, \<^verbatim>\<open>res.redirect(url)\<close>, \<^verbatim>\<open>res.download(path, filename)\<close>, or
  an exception that nothing catches.
\<close>

datatype response =
    Send nat body
  | Redirect string
  | Download string string
  | Throws string

text \<open>A request parameter as the value it is in JavaScript.\<close>

definition param_value :: "string option \<Rightarrow> jsval" where
  "param_value p = (case p of None \<Rightarrow> JUndefined | Some s \<Rightarrow> JStr s)"

text \<open>A property that may not be set, as \<^verbatim>\<open>res.send\<close> receives it.\<close>

definition body_of :: "string option \<Rightarrow> body" where
  "body_of m = (case m of None \<Rightarrow> No_body | Some s \<Rightarrow> Text s)"

text \<open>The \<^verbatim>\<open>options\<close> literal both handlers build from the request.\<close>

definition request_options :: "request \<Rightarrow> options" where
  "request_options req =
     \<lparr>width = param_value (req ''width''),
      height = param_value (req ''height''),
      delay = param_value (req ''delay''),
      userAgent = param_value (req ''userAgent''),
      full = JBool (req ''full'' = Some ''true'')\<rparr>"

text \<open>\<^verbatim>\<open>\w\<close>: a letter, a digit or the underscore.\<close>

definition is_word_char :: "char \<Rightarrow> bool" where
  "is_word_char c =
     (c \<in> set (''abcdefghijklmnopqrstuvwxyz'' @ ''ABCDEFGHIJKLMNOPQRSTUVWXYZ'' @ ''0123456789_''))"

text \<open>\<^verbatim>\<open>s.replace(/\W/g, '_')\<close>\<close>

definition replace_nonword :: "string \<Rightarrow> string" where
  "replace_nonword s = map (\<lambda>c. if is_word_char c then c else CHR ''_'') s"

text \<open>\<^verbatim>\<open>s.replace(/_$/, '')\<close>: one underscore at the very end goes.\<close>

definition replace_last_underscore :: "string \<Rightarrow> string" where
  "replace_last_underscore s = (if s \<noteq> [] \<and> last s = CHR ''_'' then butlast s else s)"

text \<open>The name \<^verbatim>\<open>exports.generate\<close> builds for the download, from the host and the path.\<close>

definition imageName :: "string \<Rightarrow> string \<Rightarrow> string" where
  "imageName host path =
     (let imageName = replace_nonword host;
          pathName = replace_last_underscore (replace_nonword path);
          imageName = (if pathName \<noteq> [] then imageName @ pathName else imageName)
      in imageName @ ''.png'')"

text \<open>
  The same name in the specification's words: host and path, every character that is not a
  word character made an underscore, the underscores at the end trimmed, and the extension.
\<close>

definition spec_display_name :: "string \<Rightarrow> string \<Rightarrow> string" where
  "spec_display_name host path =
     rev (dropWhile (\<lambda>c. c = CHR ''_'') (rev (replace_nonword (host @ path)))) @ ''.png''"

text \<open>\<^verbatim>\<open>exports.store\<close>\<close>

definition store_handler :: "env \<Rightarrow> world \<Rightarrow> request \<Rightarrow> response \<times> world" where
  "store_handler e w req =
     (case req ''name'' of
        None \<Rightarrow> (Send 400 (Text ''Missing name''), w)
      | Some name \<Rightarrow>
          if name = [] then (Send 400 (Text ''Missing name''), w)
          else
            (case req ''url'' of
               None \<Rightarrow> (Send 400 (Text ''Missing url''), w)
             | Some url \<Rightarrow>
                 if url = [] then (Send 400 (Text ''Missing url''), w)
                 else
                   (let parsedUrl = url_parse e url in
                    if protocol parsedUrl = None \<or> protocol parsedUrl = Some []
                    then (Send 400 (Text ''Invalid url, missing protocol''), w)
                    else if hostname parsedUrl = None \<or> hostname parsedUrl = Some []
                    then (Send 400 (Text ''Invalid url, missing hostname''), w)
                    else
                      (case store e w name url (Some (request_options req)) of
                         (Some err, w') \<Rightarrow> (Send (code err) (body_of (msg err)), w')
                       | (None, w') \<Rightarrow> (Send 200 (Url_object (''/f/'' @ name)), w')))))"

text \<open>
  \<^verbatim>\<open>exports.getStoredImage\<close>. Without a \<^verbatim>\<open>name\<close> parameter \<^verbatim>\<open>path.join\<close> is given
  \<^verbatim>\<open>undefined\<close> and throws.
\<close>

definition getStoredImage :: "env \<Rightarrow> world \<Rightarrow> request \<Rightarrow> response \<times> world" where
  "getStoredImage e w req =
     (case req ''name'' of
        None \<Rightarrow> (Throws ''TypeError'', w)
      | Some name \<Rightarrow>
          (case getStoredImageUrl e w name of
             (Inl err, w') \<Rightarrow> (Send (code err) (body_of (message err)), w')
           | (Inr url, w') \<Rightarrow> (Redirect url, w')))"

text \<open>
  \<^verbatim>\<open>exports.generate\<close>. A parsed URL without a path (\<^verbatim>\<open>null\<close>) makes \<^verbatim>\<open>pathname.replace\<close>
  throw; after the download the file is unlinked, whatever comes of it.
\<close>

definition generate_handler :: "env \<Rightarrow> world \<Rightarrow> request \<Rightarrow> response \<times> world" where
  "generate_handler e w req =
     (case req ''url'' of
        None \<Rightarrow> (Send 400 (Text ''Missing url''), w)
      | Some url \<Rightarrow>
          if url = [] then (Send 400 (Text ''Missing url''), w)
          else
            (let parsedUrl = url_parse e url in
             if protocol parsedUrl = None \<or> protocol parsedUrl = Some []
             then (Send 400 (Text ''Invalid url, missing protocol''), w)
             else
               (case hostname parsedUrl of
                  None \<Rightarrow> (Send 400 (Text ''Invalid url, missing hostname''), w)
                | Some host \<Rightarrow>
                    if host = [] then (Send 400 (Text ''Invalid url, missing hostname''), w)
                    else
                      (case generate e w url (Some (request_options req)) of
                         (Inl err, w') \<Rightarrow> (Send (code err) (body_of (msg err)), w')
                       | (Inr path, w') \<Rightarrow>
                           (case pathname parsedUrl of
                              None \<Rightarrow> (Throws ''TypeError'', w')
                            | Some urlPath \<Rightarrow>
                                (Download path (imageName host urlPath),
                                 snd (fs_unlink e w' path)))))))"

section \<open>Reading the trace\<close>

text \<open>The events a call added to the trace.\<close>

definition new_events :: "world \<Rightarrow> world \<Rightarrow> event list" where
  "new_events w w' = drop (length (trace w)) (trace w')"

text \<open>The invocations of the renderer among some events: the options of each.\<close>

fun renders :: "event list \<Rightarrow> webshotOptions list" where
  "renders [] = []"
| "renders (Webshot url p wo # es) = wo # renders es"
| "renders (ev # es) = renders es"

fun uploads :: "event list \<Rightarrow> s3_params list" where
  "uploads [] = []"
| "uploads (Upload params # es) = params # uploads es"
| "uploads (ev # es) = uploads es"

fun unlinks :: "event list \<Rightarrow> string list" where
  "unlinks [] = []"
| "unlinks (Unlink p # es) = p # unlinks es"
| "unlinks (ev # es) = unlinks es"

text \<open>A number of seconds as a header shows it, in decimal.\<close>

fun decimal :: "nat \<Rightarrow> string" where
  "decimal n =
     (if n < 10 then [''0123456789'' ! n]
      else decimal (n div 10) @ [''0123456789'' ! (n mod 10)])"

text \<open>A field of the options argument as the caller gave it; no object, no field.\<close>

definition given :: "(options \<Rightarrow> jsval) \<Rightarrow> options option \<Rightarrow> jsval" where
  "given field options = (case options of None \<Rightarrow> JUndefined | Some opts \<Rightarrow> field opts)"

text \<open>
  The object the renderer is given for an options argument, as \<^verbatim>\<open>generate\<close> and
  \<^verbatim>\<open>screengrab\<close> build it (lemma \<open>generate_eq\<close>).
\<close>

definition webshotOptions_for :: "env \<Rightarrow> options option \<Rightarrow> webshotOptions" where
  "webshotOptions_for e options =
     (let d = js_or (given delay options) (JNum 0) in
      \<lparr>renderDelay = (if js_gt (string_gt e) d 10000 then JNum 10000 else d),
       windowSize_width = js_or (given width options) (JNum 1024),
       windowSize_height = js_or (given height options) (JNum 768),
       shotSize_width = ''window'',
       shotSize_height = (if js_is_true (given full options) then ''all'' else ''window''),
       webshot_userAgent = js_or (given userAgent options) (JStr []),
       phantomConfig = [(''ignore-ssl-errors'', JBool True), (''ssl-protocol'', JStr ''any'')]\<rparr>)"

section \<open>A configuration to run the program on\<close>

text \<open>
  What \<^verbatim>\<open>url.parse\<close> returns on the URLs used below; any other string is taken as a
  reference without a scheme, all of it path.
\<close>

definition sample_url_parse :: "string \<Rightarrow> parsed_url" where
  "sample_url_parse u =
     (if u = ''http://okfn.org/about/how-we-can-help-you/''
      then \<lparr>protocol = Some ''http:'', hostname = Some ''okfn.org'',
            pathname = Some ''/about/how-we-can-help-you/''\<rparr>
      else if u = ''http://example.com/about/''
      then \<lparr>protocol = Some ''http:'', hostname = Some ''example.com'', pathname = Some ''/about/''\<rparr>
      else if u = ''http://a.b/x//''
      then \<lparr>protocol = Some ''http:'', hostname = Some ''a.b'', pathname = Some ''/x//''\<rparr>
      else \<lparr>protocol = None, hostname = None, pathname = Some u\<rparr>)"

definition sample_env :: env where
  "sample_env =
     \<lparr>AWS_S3_BUCKET = ''shots'',
      AWS_S3_DIRECTORY = ''images'',
      path_join = (\<lambda>d n. if n = [] then d else d @ ''/'' @ n),
      url_parse = sample_url_parse,
      string_gt = (\<lambda>s n. False),
      temp_path = (\<lambda>n. ''/tmp/'' @ replicate n (CHR ''x'') @ ''.png''),
      webshot_render = (\<lambda>url wo. Some ''PNG''),
      getObject_fault = (\<lambda>key. None),
      upload_fault = (\<lambda>key. None),
      unlink_fault = (\<lambda>p. False),
      getSignedUrl = (\<lambda>operation bucket key. ''https://s3/'' @ bucket @ ''/'' @ key @ ''?Signature'')\<rparr>"

text \<open>A bucket that holds one image, stored under the name \<^verbatim>\<open>site1\<close>.\<close>

definition sample_object :: s3_params where
  "sample_object =
     \<lparr>Body = Some ''PNG'', Bucket = ''shots'', CacheControl = ''max-age=315360000'',
      ContentType = ''image/jpeg'', Expires = Date 2035 1 1, Key = ''images/site1''\<rparr>"

definition sample_world :: world where
  "sample_world =
     \<lparr>s3_objects = [''images/site1'' \<mapsto> sample_object],
      files = Map.empty,
      temp_count = 0,
      trace = []\<rparr>"

text \<open>A request with the given parameters.\<close>

definition request_of :: "(string \<times> string) list \<Rightarrow> request" where
  "request_of ps = map_of ps"

section \<open>What the functions compute\<close>

lemma checkFileExists_eq:
  "checkFileExists e w name =
     (let key = getS3Key e name;
          w' = w\<lparr>trace := trace w @ [GetObject (AWS_S3_BUCKET e) key]\<rparr>
      in case getObject_fault e key of
           Some err \<Rightarrow>
             (if aws_code err \<noteq> ''NoSuchKey''
              then Inl \<lparr>code = 500, msg = None, message = Some (aws_message err)\<rparr>
              else Inr False, w')
         | None \<Rightarrow> (Inr (s3_objects w key \<noteq> None), w'))"
  by (simp add: checkFileExists_def s3_getObject_def Let_def split: option.splits)

lemma generate_Some:
  "generate e w url (Some \<lparr>width = a, height = b, delay = c, userAgent = u, full = f\<rparr>) =
     screengrab e w url
       \<lparr>width = js_or a (JNum 1024), height = js_or b (JNum 768),
        delay = (if js_gt (string_gt e) (js_or c (JNum 0)) 10000 then JNum 10000 else js_or c (JNum 0)),
        userAgent = js_or u (JStr []), full = f\<rparr>"
  by (simp add: generate_def Let_def)

lemma generate_None:
  "generate e w url None =
     screengrab e w url
       \<lparr>width = js_or JUndefined (JNum 1024), height = js_or JUndefined (JNum 768),
        delay = (if js_gt (string_gt e) (js_or JUndefined (JNum 0)) 10000 then JNum 10000 else js_or JUndefined (JNum 0)),
        userAgent = js_or JUndefined (JStr []), full = JUndefined\<rparr>"
  by (simp add: generate_def empty_options_def Let_def)

lemma screengrab_eq:
  "screengrab e w url opts =
     (let wo = \<lparr>renderDelay = delay opts,
             windowSize_width = width opts,
             windowSize_height = height opts,
             shotSize_width = ''window'',
             shotSize_height = (if js_is_true (full opts) then ''all'' else ''window''),
             webshot_userAgent = userAgent opts,
             phantomConfig = [(''ignore-ssl-errors'', JBool True), (''ssl-protocol'', JStr ''any'')]\<rparr>;
          p = temp_path e (temp_count w);
          w' = w\<lparr>temp_count := Suc (temp_count w), trace := trace w @ [Webshot url p wo]\<rparr>
      in case webshot_render e url wo of
           None \<Rightarrow> (Inl \<lparr>code = 500, msg = Some ''Unable to take a screenshot'', message = None\<rparr>, w')
         | Some bytes \<Rightarrow> (Inr p, w'\<lparr>files := (files w)(p \<mapsto> bytes)\<rparr>))"
  by (simp add: screengrab_def webshot_def Let_def split: option.splits)

lemma generate_eq:
  "generate e w url options =
     (let wo = webshotOptions_for e options;
          p = temp_path e (temp_count w);
          w' = w\<lparr>temp_count := Suc (temp_count w), trace := trace w @ [Webshot url p wo]\<rparr>
      in case webshot_render e url wo of
           None \<Rightarrow> (Inl \<lparr>code = 500, msg = Some ''Unable to take a screenshot'', message = None\<rparr>, w')
         | Some bytes \<Rightarrow> (Inr p, w'\<lparr>files := (files w)(p \<mapsto> bytes)\<rparr>))"
proof (cases options)
  case None
  have "webshotOptions_for e None = 
      \<lparr>renderDelay = (if js_gt (string_gt e) (js_or JUndefined (JNum 0)) 10000 then JNum 10000 else js_or JUndefined (JNum 0)),
             windowSize_width = js_or JUndefined (JNum 1024),
             windowSize_height = js_or JUndefined (JNum 768),
             shotSize_width = ''window'',
             shotSize_height = ''window'',
             webshot_userAgent = js_or JUndefined (JStr []),
             phantomConfig = [(''ignore-ssl-errors'', JBool True), (''ssl-protocol'', JStr ''any'')]\<rparr>"
    by (simp add: webshotOptions_for_def given_def Let_def)
  then show ?thesis unfolding None generate_None screengrab_eq by (simp add: Let_def)
next
  case (Some opts)
  obtain a b c u f where opts: "opts = \<lparr>width = a, height = b, delay = c, userAgent = u, full = f\<rparr>"
    by (cases opts) simp
  have "webshotOptions_for e (Some opts) = 
      \<lparr>renderDelay = (if js_gt (string_gt e) (js_or c (JNum 0)) 10000 then JNum 10000 else js_or c (JNum 0)),
             windowSize_width = js_or a (JNum 1024),
             windowSize_height = js_or b (JNum 768),
             shotSize_width = ''window'',
             shotSize_height = (if js_is_true f then ''all'' else ''window''),
             webshot_userAgent = js_or u (JStr []),
             phantomConfig = [(''ignore-ssl-errors'', JBool True), (''ssl-protocol'', JStr ''any'')]\<rparr>"
    by (simp add: webshotOptions_for_def given_def Let_def opts)
  then show ?thesis unfolding Some opts generate_Some screengrab_eq by (simp add: Let_def)
qed

lemma renders_append: "renders (xs @ ys) = renders xs @ renders ys"
  by (induction xs rule: renders.induct) simp_all

lemma uploads_append: "uploads (xs @ ys) = uploads xs @ uploads ys"
  by (induction xs rule: uploads.induct) simp_all

lemma unlinks_append: "unlinks (xs @ ys) = unlinks xs @ unlinks ys"
  by (induction xs rule: unlinks.induct) simp_all

lemma checkFileExists_world:
  "snd (checkFileExists e w name) = w\<lparr>trace := trace w @ [GetObject (AWS_S3_BUCKET e) (getS3Key e name)]\<rparr>"
  by (simp add: checkFileExists_eq Let_def split: option.splits)

lemma generate_trace:
  "trace (snd (generate e w url options)) =
     trace w @ [Webshot url (temp_path e (temp_count w)) (webshotOptions_for e options)]"
  by (simp add: generate_eq Let_def split: option.splits)

lemma generate_s3_objects: "s3_objects (snd (generate e w url options)) = s3_objects w"
  by (simp add: generate_eq Let_def split: option.splits)

lemma generate_renders:
  "renders (new_events w (snd (generate e w url options))) = [webshotOptions_for e options]"
  by (simp add: new_events_def generate_trace)

lemma s3_upload_trace: "trace (snd (s3_upload e w params)) = trace w @ [Upload params]"
  by (simp add: s3_upload_def Let_def split: option.splits)

lemma fs_unlink_trace: "trace (snd (fs_unlink e w p)) = trace w @ [Unlink p]"
  by (simp add: fs_unlink_def Let_def)

text \<open>The events of a whole \<^verbatim>\<open>store\<close>.\<close>

lemma store_new_events:
  "new_events w (snd (store e w name url options)) =
     GetObject (AWS_S3_BUCKET e) (getS3Key e name) #
     (case fst (checkFileExists e w name) of
        Inl err \<Rightarrow> []
      | Inr exists \<Rightarrow>
          if exists then []
          else
            (let w1 = snd (checkFileExists e w name) in
             Webshot url (temp_path e (temp_count w)) (webshotOptions_for e options) #
             (case fst (generate e w1 url options) of
                Inl err \<Rightarrow> []
              | Inr imagePath \<Rightarrow>
                  [Upload \<lparr>Body = files (snd (generate e w1 url options)) imagePath,
                           Bucket = AWS_S3_BUCKET e,
                           CacheControl = ''max-age=315360000'',
                           ContentType = ''image/jpeg'',
                           Expires = Date 2035 1 1,
                           Key = getS3Key e name\<rparr>,
                   Unlink imagePath])))"
proof -
  obtain r w1 where c: "checkFileExists e w name = (r, w1)"
    by (cases "checkFileExists e w name")
  have w1: "w1 = w\<lparr>trace := trace w @ [GetObject (AWS_S3_BUCKET e) (getS3Key e name)]\<rparr>"
    using checkFileExists_world [of e w name] c by simp
  obtain g w2 where g: "generate e w1 url options = (g, w2)"
    by (cases "generate e w1 url options")
  have w2: "trace w2 = trace w1 @ [Webshot url (temp_path e (temp_count w)) (webshotOptions_for e options)]"
    using generate_trace [of e w1 url options] g w1 by simp
  show ?thesis
  proof (cases r)
    case (Inl err)
    then show ?thesis using c w1 by (simp add: store_def new_events_def)
  next
    case (Inr exists)
    show ?thesis
    proof (cases exists)
      case True
      then show ?thesis using c w1 Inr by (simp add: store_def new_events_def)
    next
      case False
      show ?thesis
      proof (cases g)
        case (Inl err)
        then show ?thesis using c g w1 w2 Inr False by (simp add: store_def new_events_def)
      next
        case (Inr imagePath)
        then show ?thesis using c g w1 w2 \<open>r = Inr exists\<close> False
          by (simp add: store_def new_events_def s3_upload_trace fs_unlink_trace
                case_prod_beta)
      qed
    qed
  qed
qed

lemma webshotOptions_for_simps:
  "renderDelay (webshotOptions_for e options) =
     (if js_gt (string_gt e) (js_or (given delay options) (JNum 0)) 10000 then JNum 10000
      else js_or (given delay options) (JNum 0))"
  "windowSize_width (webshotOptions_for e options) = js_or (given width options) (JNum 1024)"
  "windowSize_height (webshotOptions_for e options) = js_or (given height options) (JNum 768)"
  "webshot_userAgent (webshotOptions_for e options) = js_or (given userAgent options) (JStr [])"
  "shotSize_width (webshotOptions_for e options) = ''window''"
  "shotSize_height (webshotOptions_for e options) =
     (if js_is_true (given full options) then ''all'' else ''window'')"
  by (simp_all add: webshotOptions_for_def Let_def)

lemma store_renders:
  "renders (new_events w (snd (store e w name url options))) =
     (if fst (checkFileExists e w name) = Inr False then [webshotOptions_for e options] else [])"
  by (cases "fst (checkFileExists e w name)") (simp_all add: store_new_events Let_def split: sum.splits)

section \<open>Defaults and the maximal delay\<close>

text \<open>
  C4: \<^verbatim>\<open>generate\<close> invokes the renderer once, \<^verbatim>\<open>store\<close> at most once (once when the name
  is free), and each invocation gets width 1024 where the options have no width, height
  768 where they have no height, the empty user agent where they have none, and delay 0
  where they have no delay.
\<close>

theorem absent_fields_get_defaults:
  "(\<exists>wo. renders (new_events w (snd (generate e w url options))) = [wo] \<and>
         (given width options = JUndefined \<longrightarrow> windowSize_width wo = JNum 1024) \<and>
         (given height options = JUndefined \<longrightarrow> windowSize_height wo = JNum 768) \<and>
         (given userAgent options = JUndefined \<longrightarrow> webshot_userAgent wo = JStr []) \<and>
         (given delay options = JUndefined \<longrightarrow> renderDelay wo = JNum 0)) \<and>
   (\<forall>wo \<in> set (renders (new_events w (snd (store e w name url options)))).
         (given width options = JUndefined \<longrightarrow> windowSize_width wo = JNum 1024) \<and>
         (given height options = JUndefined \<longrightarrow> windowSize_height wo = JNum 768) \<and>
         (given userAgent options = JUndefined \<longrightarrow> webshot_userAgent wo = JStr []) \<and>
         (given delay options = JUndefined \<longrightarrow> renderDelay wo = JNum 0)) \<and>
   (fst (checkFileExists e w name) = Inr False \<longrightarrow>
      length (renders (new_events w (snd (store e w name url options)))) = 1)"
  by (simp add: generate_renders store_renders webshotOptions_for_simps js_or_def)

theorem absent_fields_get_defaults_witness:
  "given width (Some empty_options) = JUndefined \<and>
   given height (Some empty_options) = JUndefined \<and>
   given userAgent (Some empty_options) = JUndefined \<and>
   given delay (Some empty_options) = JUndefined \<and>
   fst (checkFileExists sample_env sample_world ''site2'') = Inr False \<and>
   map (\<lambda>wo. (windowSize_width wo, windowSize_height wo, webshot_userAgent wo, renderDelay wo))
     (renders (new_events sample_world
        (snd (store sample_env sample_world ''site2'' ''http://example.com/about/'' (Some empty_options)))))
   = [(JNum 1024, JNum 768, JStr [], JNum 0)]"
proof -
  let ?rs = "renders (new_events sample_world
        (snd (store sample_env sample_world ''site2'' ''http://example.com/about/'' (Some empty_options))))"
  have g: "given width (Some empty_options) = JUndefined"
    "given height (Some empty_options) = JUndefined"
    "given userAgent (Some empty_options) = JUndefined"
    "given delay (Some empty_options) = JUndefined"
    by (simp_all add: given_def empty_options_def)
  have c: "fst (checkFileExists sample_env sample_world ''site2'') = Inr False"
    by (simp add: checkFileExists_eq getS3Key_def sample_env_def sample_world_def)
  note t = absent_fields_get_defaults [of sample_world sample_env "''http://example.com/about/''"
      "Some empty_options" "''site2''"]
  from t c have "length ?rs = 1" by blast
  then obtain wo where rs: "?rs = [wo]" by (cases ?rs) auto
  from t rs g have "windowSize_width wo = JNum 1024 \<and> windowSize_height wo = JNum 768 \<and>
      webshot_userAgent wo = JStr [] \<and> renderDelay wo = JNum 0"
    by simp
  with rs g c show ?thesis by simp
qed

text \<open>
  C2, as the specification has it, promises a delay within 0 and 10000 and that no
  negative delay reaches the renderer. \<^verbatim>\<open>generate\<close> has an upper bound only: called with
  the delay \<open>-5\<close> it hands \<open>-5\<close> to the renderer.
\<close>

theorem negative_delay_reaches_renderer:
  "map renderDelay
     (renders (new_events sample_world
        (snd (generate sample_env sample_world ''http://example.com/about/''
               (Some (empty_options\<lparr>delay := JNum (- 5)\<rparr>))))))
   = [JNum (- 5)] \<and>
   (- 5 :: int) < 0"
  by (simp add: generate_renders webshotOptions_for_simps given_def empty_options_def js_or_def)

text \<open>
  C2, amended: for an integer delay \<open>d\<close> in the options, the renderer is given \<open>d\<close> when
  \<open>d\<close> is at most 10000 and exactly 10000 when \<open>d\<close> exceeds 10000, in \<^verbatim>\<open>generate\<close> and in
  \<^verbatim>\<open>store\<close>; so the delay is at most 10000, it is not negative when \<open>d\<close> is not, and a
  negative \<open>d\<close> goes through unchanged. Without a delay in the options the renderer is
  given 0.
\<close>

theorem delay_at_most_maximum:
  "(given delay options = JUndefined \<longrightarrow>
      map renderDelay (renders (new_events w (snd (generate e w url options)))) = [JNum 0]) \<and>
   (given delay options = JNum d \<longrightarrow>
      map renderDelay (renders (new_events w (snd (generate e w url options))))
        = [JNum (if 10000 < d then 10000 else d)] \<and>
      (\<forall>wo \<in> set (renders (new_events w (snd (store e w name url options)))).
          renderDelay wo = JNum (if 10000 < d then 10000 else d)) \<and>
      (if 10000 < d then 10000 else d) \<le> 10000 \<and>
      (0 \<le> d \<longrightarrow> 0 \<le> (if 10000 < d then 10000 else d)) \<and>
      (d < 0 \<longrightarrow> (if 10000 < d then 10000 else d) = d))"
  by (simp add: generate_renders store_renders webshotOptions_for_simps js_or_def)

theorem delay_at_most_maximum_witness:
  "given delay (Some (empty_options\<lparr>delay := JNum 20000\<rparr>)) = JNum 20000 \<and>
   map renderDelay
     (renders (new_events sample_world
        (snd (generate sample_env sample_world ''http://example.com/about/''
               (Some (empty_options\<lparr>delay := JNum 20000\<rparr>))))))
   = [JNum 10000]"
proof -
  have g: "given delay (Some (empty_options\<lparr>delay := JNum 20000\<rparr>)) = JNum 20000"
    by (simp add: given_def)
  from delay_at_most_maximum [of "Some (empty_options\<lparr>delay := JNum 20000\<rparr>)" sample_world
      sample_env "''http://example.com/about/''" 20000] g
  show ?thesis by simp
qed

text \<open>Options that lead to the same renderer options lead to the same run.\<close>

lemma webshotOptions_for_falsy:
  assumes "\<not> truthy v"
  shows "webshotOptions_for e (Some (opts\<lparr>width := v\<rparr>)) = webshotOptions_for e (Some (opts\<lparr>width := JUndefined\<rparr>))"
    and "webshotOptions_for e (Some (opts\<lparr>height := v\<rparr>)) = webshotOptions_for e (Some (opts\<lparr>height := JUndefined\<rparr>))"
    and "webshotOptions_for e (Some (opts\<lparr>delay := v\<rparr>)) = webshotOptions_for e (Some (opts\<lparr>delay := JUndefined\<rparr>))"
    and "webshotOptions_for e (Some (opts\<lparr>userAgent := v\<rparr>)) = webshotOptions_for e (Some (opts\<lparr>userAgent := JUndefined\<rparr>))"
  using assms by (simp_all add: webshotOptions_for_def given_def js_or_def Let_def)

lemma generate_cong:
  "webshotOptions_for e o1 = webshotOptions_for e o2 \<Longrightarrow> generate e w url o1 = generate e w url o2"
  by (simp add: generate_eq)

lemma store_cong:
  assumes "webshotOptions_for e o1 = webshotOptions_for e o2"
  shows "store e w name url o1 = store e w name url o2"
proof -
  have eq: "\<And>w1. generate e w1 url o1 = generate e w1 url o2"
    using assms by (rule generate_cong)
  show ?thesis unfolding store_def eq ..
qed

text \<open>
  C10: an option that is there but falsy (\<^verbatim>\<open>undefined\<close>, \<^verbatim>\<open>null\<close>, \<^verbatim>\<open>false\<close>, \<open>0\<close>, NaN or
  the empty string) makes \<^verbatim>\<open>generate\<close> and \<^verbatim>\<open>store\<close> do exactly what they do without it:
  same result, same effects. So a width of 0 is rendered as 1024, a height of 0 as 768,
  a delay of 0 as 0 and an empty user agent as the empty string.
\<close>

theorem falsy_fields_as_absent:
  "(\<not> truthy v \<longrightarrow>
      generate e w url (Some (opts\<lparr>width := v\<rparr>)) = generate e w url (Some (opts\<lparr>width := JUndefined\<rparr>)) \<and>
      generate e w url (Some (opts\<lparr>height := v\<rparr>)) = generate e w url (Some (opts\<lparr>height := JUndefined\<rparr>)) \<and>
      generate e w url (Some (opts\<lparr>delay := v\<rparr>)) = generate e w url (Some (opts\<lparr>delay := JUndefined\<rparr>)) \<and>
      generate e w url (Some (opts\<lparr>userAgent := v\<rparr>)) = generate e w url (Some (opts\<lparr>userAgent := JUndefined\<rparr>)) \<and>
      store e w name url (Some (opts\<lparr>width := v\<rparr>)) = store e w name url (Some (opts\<lparr>width := JUndefined\<rparr>)) \<and>
      store e w name url (Some (opts\<lparr>height := v\<rparr>)) = store e w name url (Some (opts\<lparr>height := JUndefined\<rparr>)) \<and>
      store e w name url (Some (opts\<lparr>delay := v\<rparr>)) = store e w name url (Some (opts\<lparr>delay := JUndefined\<rparr>)) \<and>
      store e w name url (Some (opts\<lparr>userAgent := v\<rparr>)) = store e w name url (Some (opts\<lparr>userAgent := JUndefined\<rparr>))) \<and>
   map windowSize_width (renders (new_events w (snd (generate e w url (Some (opts\<lparr>width := JNum 0\<rparr>))))))
     = [JNum 1024] \<and>
   map windowSize_height (renders (new_events w (snd (generate e w url (Some (opts\<lparr>height := JNum 0\<rparr>))))))
     = [JNum 768] \<and>
   map renderDelay (renders (new_events w (snd (generate e w url (Some (opts\<lparr>delay := JNum 0\<rparr>))))))
     = [JNum 0] \<and>
   map webshot_userAgent (renders (new_events w (snd (generate e w url (Some (opts\<lparr>userAgent := JStr []\<rparr>))))))
     = [JStr []]"
proof (intro conjI impI)
  assume f: "\<not> truthy v"
  note wf = webshotOptions_for_falsy [OF f, of e opts]
  show "generate e w url (Some (opts\<lparr>width := v\<rparr>)) = generate e w url (Some (opts\<lparr>width := JUndefined\<rparr>))"
    by (rule generate_cong) (rule wf)
  show "generate e w url (Some (opts\<lparr>height := v\<rparr>)) = generate e w url (Some (opts\<lparr>height := JUndefined\<rparr>))"
    by (rule generate_cong) (rule wf)
  show "generate e w url (Some (opts\<lparr>delay := v\<rparr>)) = generate e w url (Some (opts\<lparr>delay := JUndefined\<rparr>))"
    by (rule generate_cong) (rule wf)
  show "generate e w url (Some (opts\<lparr>userAgent := v\<rparr>)) = generate e w url (Some (opts\<lparr>userAgent := JUndefined\<rparr>))"
    by (rule generate_cong) (rule wf)
  show "store e w name url (Some (opts\<lparr>width := v\<rparr>)) = store e w name url (Some (opts\<lparr>width := JUndefined\<rparr>))"
    by (rule store_cong) (rule wf)
  show "store e w name url (Some (opts\<lparr>height := v\<rparr>)) = store e w name url (Some (opts\<lparr>height := JUndefined\<rparr>))"
    by (rule store_cong) (rule wf)
  show "store e w name url (Some (opts\<lparr>delay := v\<rparr>)) = store e w name url (Some (opts\<lparr>delay := JUndefined\<rparr>))"
    by (rule store_cong) (rule wf)
  show "store e w name url (Some (opts\<lparr>userAgent := v\<rparr>)) = store e w name url (Some (opts\<lparr>userAgent := JUndefined\<rparr>))"
    by (rule store_cong) (rule wf)
qed (simp_all add: generate_renders webshotOptions_for_simps given_def js_or_def)

theorem falsy_fields_as_absent_witness:
  "\<not> truthy (JStr []) \<and>
   map windowSize_height
     (renders (new_events sample_world
        (snd (generate sample_env sample_world ''http://example.com/about/''
               (Some (empty_options\<lparr>height := JStr []\<rparr>))))))
   = [JNum 768]"
proof -
  have f: "\<not> truthy (JStr [])" by simp
  have "map windowSize_height
     (renders (new_events sample_world
        (snd (generate sample_env sample_world ''http://example.com/about/''
               (Some (empty_options\<lparr>height := JUndefined\<rparr>)))))) = [JNum 768]"
    by (simp add: generate_renders webshotOptions_for_simps given_def js_or_def)
  with f falsy_fields_as_absent [of "JStr []" sample_env sample_world "''http://example.com/about/''"
      empty_options]
  show ?thesis by simp
qed

section \<open>Storing an image\<close>

declare decimal.simps [simp del]

lemma decimal_digit: "n < 10 \<Longrightarrow> decimal n = [''0123456789'' ! n]"
  by (subst decimal.simps) simp

lemma decimal_step: "10 \<le> n \<Longrightarrow> decimal n = decimal (n div 10) @ [''0123456789'' ! (n mod 10)]"
  by (subst decimal.simps) simp

lemma decimal_315360000: "decimal 315360000 = ''315360000''"
  by (simp add: decimal_digit decimal_step)

lemma ten_years: "decimal (10 * 365 * 24 * 60 * 60) = ''315360000''"
  by (simp add: decimal_315360000)

lemma generate_ok:
  assumes "generate e w url options = (Inr p, w2)"
  shows "p = temp_path e (temp_count w)"
    and "files w2 p = webshot_render e url (webshotOptions_for e options)"
    and "files w2 p \<noteq> None"
    and "s3_objects w2 = s3_objects w"
    and "trace w2 = trace w @ [Webshot url p (webshotOptions_for e options)]"
  using assms by (auto simp add: generate_eq Let_def split: option.splits)

lemma s3_upload_result:
  "Body params \<noteq> None \<Longrightarrow> fst (s3_upload e w params) = upload_fault e (Key params)"
  by (auto simp add: s3_upload_def Let_def split: option.splits)

lemma s3_upload_files: "files (snd (s3_upload e w params)) = files w"
  by (simp add: s3_upload_def Let_def split: option.splits)

lemma s3_upload_objects:
  "s3_objects (snd (s3_upload e w params)) =
     (if fst (s3_upload e w params) = None then (s3_objects w)(Key params \<mapsto> params)
      else s3_objects w)"
  by (simp add: s3_upload_def Let_def split: option.splits)

lemma fs_unlink_objects: "s3_objects (snd (fs_unlink e w p)) = s3_objects w"
  by (simp add: fs_unlink_def Let_def)

lemma fs_unlink_files:
  "files (snd (fs_unlink e w p)) = (if unlink_fault e p then files w else (files w)(p := None))"
  by (auto simp add: fs_unlink_def Let_def)

lemma store_after_render:
  assumes "checkFileExists e w name = (Inr False, w1)"
    and "generate e w1 url options = (Inr imagePath, w2)"
  shows "store e w name url options =
     (let u = s3_upload e w2
                \<lparr>Body = files w2 imagePath, Bucket = AWS_S3_BUCKET e,
                 CacheControl = ''max-age=315360000'', ContentType = ''image/jpeg'',
                 Expires = Date 2035 1 1, Key = getS3Key e name\<rparr>
      in (if fst u \<noteq> None
          then Some \<lparr>code = 500, msg = None,
                     message = Some ''Unable to upload the rendered image of the website to S3''\<rparr>
          else None,
          snd (fs_unlink e (snd u) imagePath)))"
  by (simp add: store_def assms case_prod_beta Let_def)

text \<open>The sample bucket has nothing under \<^verbatim>\<open>site2\<close>, and the sample renderer succeeds.\<close>

lemma sample_check_site2:
  "checkFileExists sample_env sample_world ''site2'' =
     (Inr False, snd (checkFileExists sample_env sample_world ''site2''))"
  by (simp add: checkFileExists_eq getS3Key_def sample_env_def sample_world_def)

lemma sample_generate_site2:
  "webshot_render e = (\<lambda>url wo. Some ''PNG'') \<Longrightarrow> temp_path e = temp_path sample_env \<Longrightarrow>
   generate e (snd (checkFileExists e' sample_world name)) url options =
     (Inr ''/tmp/.png'', snd (generate e (snd (checkFileExists e' sample_world name)) url options))"
  by (simp add: generate_eq checkFileExists_world sample_env_def sample_world_def Let_def)

text \<open>
  C1: when the bucket holds an object under the key of the name and the storage service
  answers the existence check, \<^verbatim>\<open>store\<close> fails with the error of code 400 "A URL by that
  name already exists"; its only effect is that check: the renderer is not invoked,
  nothing is uploaded, and the bucket, with the object under that key, is as it was.
\<close>

theorem store_existing_name_rejected:
  assumes "s3_objects w (getS3Key e name) = Some obj"
    and "getObject_fault e (getS3Key e name) = None"
  shows "store e w name url options =
           (Some \<lparr>code = 400, msg = Some ''A URL by that name already exists'', message = None\<rparr>,
            w\<lparr>trace := trace w @ [GetObject (AWS_S3_BUCKET e) (getS3Key e name)]\<rparr>) \<and>
         renders (new_events w (snd (store e w name url options))) = [] \<and>
         uploads (new_events w (snd (store e w name url options))) = [] \<and>
         s3_objects (snd (store e w name url options)) = s3_objects w \<and>
         s3_objects (snd (store e w name url options)) (getS3Key e name) = Some obj"
proof -
  have c: "checkFileExists e w name =
      (Inr True, w\<lparr>trace := trace w @ [GetObject (AWS_S3_BUCKET e) (getS3Key e name)]\<rparr>)"
    using assms by (simp add: checkFileExists_eq Let_def)
  have s: "store e w name url options =
           (Some \<lparr>code = 400, msg = Some ''A URL by that name already exists'', message = None\<rparr>,
            w\<lparr>trace := trace w @ [GetObject (AWS_S3_BUCKET e) (getS3Key e name)]\<rparr>)"
    by (simp add: store_def c)
  show ?thesis using assms(1) by (simp add: s new_events_def)
qed

theorem store_existing_name_rejected_witness:
  "s3_objects sample_world (getS3Key sample_env ''site1'') = Some sample_object \<and>
   getObject_fault sample_env (getS3Key sample_env ''site1'') = None \<and>
   fst (store sample_env sample_world ''site1'' ''http://example.com/about/'' None) =
     Some \<lparr>code = 400, msg = Some ''A URL by that name already exists'', message = None\<rparr> \<and>
   s3_objects (snd (store sample_env sample_world ''site1'' ''http://example.com/about/'' None))
     ''images/site1'' = Some sample_object"
proof -
  have k: "getS3Key sample_env ''site1'' = ''images/site1''"
    by (simp add: getS3Key_def sample_env_def)
  have a: "s3_objects sample_world (getS3Key sample_env ''site1'') = Some sample_object"
    by (simp add: k sample_world_def)
  have b: "getObject_fault sample_env (getS3Key sample_env ''site1'') = None"
    by (simp add: sample_env_def)
  from store_existing_name_rejected [OF a b, of "''http://example.com/about/''" None] a b k
  show ?thesis by simp
qed

text \<open>
  C6: when the name is free and the rendering succeeds, \<^verbatim>\<open>store\<close> uploads once: the bytes
  the renderer wrote, under the key that \<^verbatim>\<open>path.join\<close> makes of the configured directory
  and the name, with content type \<^verbatim>\<open>image/jpeg\<close>, a \<^verbatim>\<open>max-age\<close> of the seconds of ten
  years of 365 days, and the fixed expiry date \<^verbatim>\<open>new Date(2035, 1, 1)\<close>; when the upload
  does not fail the bucket then holds exactly that under the key.
\<close>

theorem store_upload_parameters:
  assumes "checkFileExists e w name = (Inr False, w1)"
    and "generate e w1 url options = (Inr imagePath, w2)"
  shows "uploads (new_events w (snd (store e w name url options))) =
           [\<lparr>Body = files w2 imagePath,
             Bucket = AWS_S3_BUCKET e,
             CacheControl = ''max-age='' @ decimal (10 * 365 * 24 * 60 * 60),
             ContentType = ''image/jpeg'',
             Expires = Date 2035 1 1,
             Key = path_join e (AWS_S3_DIRECTORY e) name\<rparr>] \<and>
         files w2 imagePath = webshot_render e url (webshotOptions_for e options) \<and>
         files w2 imagePath \<noteq> None \<and>
         (upload_fault e (getS3Key e name) = None \<longrightarrow>
            s3_objects (snd (store e w name url options)) (path_join e (AWS_S3_DIRECTORY e) name) =
              Some \<lparr>Body = files w2 imagePath,
                    Bucket = AWS_S3_BUCKET e,
                    CacheControl = ''max-age='' @ decimal (10 * 365 * 24 * 60 * 60),
                    ContentType = ''image/jpeg'',
                    Expires = Date 2035 1 1,
                    Key = path_join e (AWS_S3_DIRECTORY e) name\<rparr>)"
proof -
  have c: "fst (checkFileExists e w name) = Inr False" "snd (checkFileExists e w name) = w1"
    using assms(1) by simp_all
  have g: "fst (generate e w1 url options) = Inr imagePath" "snd (generate e w1 url options) = w2"
    using assms(2) by simp_all
  have u: "uploads (new_events w (snd (store e w name url options))) =
           [\<lparr>Body = files w2 imagePath, Bucket = AWS_S3_BUCKET e,
             CacheControl = ''max-age=315360000'', ContentType = ''image/jpeg'',
             Expires = Date 2035 1 1, Key = getS3Key e name\<rparr>]"
    by (simp add: store_new_events c g Let_def)
  note f = generate_ok(2,3) [OF assms(2)]
  have o: "upload_fault e (getS3Key e name) = None \<Longrightarrow>
      s3_objects (snd (store e w name url options)) (getS3Key e name) =
        Some \<lparr>Body = files w2 imagePath, Bucket = AWS_S3_BUCKET e,
             CacheControl = ''max-age=315360000'', ContentType = ''image/jpeg'',
             Expires = Date 2035 1 1, Key = getS3Key e name\<rparr>"
    using f(2)
    by (simp add: store_after_render [OF assms] Let_def fs_unlink_objects s3_upload_objects
          s3_upload_result)
  show ?thesis using u f o by (simp add: decimal_315360000 getS3Key_def)
qed


theorem store_upload_parameters_witness:
  "checkFileExists sample_env sample_world ''site2'' =
     (Inr False, snd (checkFileExists sample_env sample_world ''site2'')) \<and>
   generate sample_env (snd (checkFileExists sample_env sample_world ''site2''))
       ''http://example.com/about/'' None =
     (Inr ''/tmp/.png'',
      snd (generate sample_env (snd (checkFileExists sample_env sample_world ''site2''))
             ''http://example.com/about/'' None)) \<and>
   uploads (new_events sample_world
      (snd (store sample_env sample_world ''site2'' ''http://example.com/about/'' None))) =
     [\<lparr>Body = Some ''PNG'', Bucket = ''shots'', CacheControl = ''max-age=315360000'',
       ContentType = ''image/jpeg'', Expires = Date 2035 1 1, Key = ''images/site2''\<rparr>]"
proof -
  note c = sample_check_site2
  have g: "generate sample_env (snd (checkFileExists sample_env sample_world ''site2''))
       ''http://example.com/about/'' None =
     (Inr ''/tmp/.png'',
      snd (generate sample_env (snd (checkFileExists sample_env sample_world ''site2''))
             ''http://example.com/about/'' None))"
    by (rule sample_generate_site2) (simp_all add: sample_env_def)
  have r: "webshot_render sample_env ''http://example.com/about/'' (webshotOptions_for sample_env None)
      = Some ''PNG''"
    by (simp add: sample_env_def)
  have k: "path_join sample_env (AWS_S3_DIRECTORY sample_env) ''site2'' = ''images/site2''"
    "AWS_S3_BUCKET sample_env = ''shots''"
    by (simp_all add: sample_env_def)
  from store_upload_parameters [OF c g] have
    "uploads (new_events sample_world
      (snd (store sample_env sample_world ''site2'' ''http://example.com/about/'' None))) =
     [\<lparr>Body = Some ''PNG'', Bucket = ''shots'', CacheControl = ''max-age=315360000'',
       ContentType = ''image/jpeg'', Expires = Date 2035 1 1, Key = ''images/site2''\<rparr>]"
    by (simp add: r k decimal_315360000 generate_ok(2) [OF g])
  with c g show ?thesis by simp
qed

text \<open>
  C7: when the name is free and the rendering succeeds, \<^verbatim>\<open>store\<close> unlinks the rendered
  file once, as its last action after the upload, whatever came of the upload. The
  result is the error of code 500 "Unable to upload ..." exactly when the upload failed,
  and no error otherwise: whether the unlink failed plays no part. When the unlink does
  not fail the file is gone; when it fails the file stays.
\<close>

theorem store_unlinks_after_upload:
  assumes "checkFileExists e w name = (Inr False, w1)"
    and "generate e w1 url options = (Inr imagePath, w2)"
  shows "unlinks (new_events w (snd (store e w name url options))) = [imagePath] \<and>
         last (new_events w (snd (store e w name url options))) = Unlink imagePath \<and>
         (upload_fault e (getS3Key e name) \<noteq> None \<longrightarrow>
            fst (store e w name url options) =
              Some \<lparr>code = 500, msg = None,
                    message = Some ''Unable to upload the rendered image of the website to S3''\<rparr>) \<and>
         (upload_fault e (getS3Key e name) = None \<longrightarrow> fst (store e w name url options) = None) \<and>
         (\<not> unlink_fault e imagePath \<longrightarrow> files (snd (store e w name url options)) imagePath = None) \<and>
         (unlink_fault e imagePath \<longrightarrow>
            files (snd (store e w name url options)) imagePath = files w2 imagePath)"
proof -
  have c: "fst (checkFileExists e w name) = Inr False" "snd (checkFileExists e w name) = w1"
    using assms(1) by simp_all
  have g: "fst (generate e w1 url options) = Inr imagePath" "snd (generate e w1 url options) = w2"
    using assms(2) by simp_all
  have ev: "new_events w (snd (store e w name url options)) =
      [GetObject (AWS_S3_BUCKET e) (getS3Key e name),
       Webshot url (temp_path e (temp_count w)) (webshotOptions_for e options),
       Upload \<lparr>Body = files w2 imagePath, Bucket = AWS_S3_BUCKET e,
               CacheControl = ''max-age=315360000'', ContentType = ''image/jpeg'',
               Expires = Date 2035 1 1, Key = getS3Key e name\<rparr>,
       Unlink imagePath]"
    by (simp add: store_new_events c g Let_def)
  note f = generate_ok(3) [OF assms(2)]
  have r: "fst (store e w name url options) =
      (if upload_fault e (getS3Key e name) \<noteq> None
       then Some \<lparr>code = 500, msg = None,
                  message = Some ''Unable to upload the rendered image of the website to S3''\<rparr>
       else None)"
    using f by (simp add: store_after_render [OF assms] Let_def s3_upload_result)
  have d: "files (snd (store e w name url options)) =
      (if unlink_fault e imagePath then files w2 else (files w2)(imagePath := None))"
    by (simp add: store_after_render [OF assms] Let_def fs_unlink_files s3_upload_files)
  show ?thesis by (simp add: ev r d)
qed

theorem store_unlinks_after_upload_witness:
  "(let e = sample_env\<lparr>upload_fault := (\<lambda>key. Some \<lparr>aws_code = ''SlowDown'', aws_message = ''busy''\<rparr>),
                        unlink_fault := (\<lambda>p. True)\<rparr>
    in checkFileExists e sample_world ''site2'' = (Inr False, snd (checkFileExists e sample_world ''site2'')) \<and>
       generate e (snd (checkFileExists e sample_world ''site2'')) ''http://example.com/about/'' None =
         (Inr ''/tmp/.png'',
          snd (generate e (snd (checkFileExists e sample_world ''site2'')) ''http://example.com/about/'' None)) \<and>
       fst (store e sample_world ''site2'' ''http://example.com/about/'' None) =
         Some \<lparr>code = 500, msg = None,
               message = Some ''Unable to upload the rendered image of the website to S3''\<rparr> \<and>
       unlinks (new_events sample_world (snd (store e sample_world ''site2'' ''http://example.com/about/'' None)))
         = [''/tmp/.png''])"
proof -
  define e where "e = sample_env\<lparr>upload_fault := (\<lambda>key. Some \<lparr>aws_code = ''SlowDown'', aws_message = ''busy''\<rparr>),
                        unlink_fault := (\<lambda>p. True)\<rparr>"
  have c: "checkFileExists e sample_world ''site2'' = (Inr False, snd (checkFileExists e sample_world ''site2''))"
    by (simp add: e_def checkFileExists_eq getS3Key_def sample_env_def sample_world_def)
  have g: "generate e (snd (checkFileExists e sample_world ''site2'')) ''http://example.com/about/'' None =
         (Inr ''/tmp/.png'',
          snd (generate e (snd (checkFileExists e sample_world ''site2'')) ''http://example.com/about/'' None))"
    by (rule sample_generate_site2) (simp_all add: e_def sample_env_def)
  have u: "upload_fault e (getS3Key e ''site2'') \<noteq> None"
    by (simp add: e_def)
  from store_unlinks_after_upload [OF c g] u c g
  have "checkFileExists e sample_world ''site2'' = (Inr False, snd (checkFileExists e sample_world ''site2'')) \<and>
       generate e (snd (checkFileExists e sample_world ''site2'')) ''http://example.com/about/'' None =
         (Inr ''/tmp/.png'',
          snd (generate e (snd (checkFileExists e sample_world ''site2'')) ''http://example.com/about/'' None)) \<and>
       fst (store e sample_world ''site2'' ''http://example.com/about/'' None) =
         Some \<lparr>code = 500, msg = None,
               message = Some ''Unable to upload the rendered image of the website to S3''\<rparr> \<and>
       unlinks (new_events sample_world (snd (store e sample_world ''site2'' ''http://example.com/about/'' None)))
         = [''/tmp/.png'']"
    by simp
  then show ?thesis unfolding e_def Let_def .
qed

section \<open>The handler that generates an image\<close>

lemma is_word_char_underscore: "is_word_char (CHR ''_'')"
  by (simp add: is_word_char_def)

lemma replace_nonword_append: "replace_nonword (xs @ ys) = replace_nonword xs @ replace_nonword ys"
  by (simp add: replace_nonword_def)

lemma imageName_eq:
  "imageName host path =
     replace_nonword host @ replace_last_underscore (replace_nonword path) @ ''.png''"
  by (simp add: imageName_def Let_def)

lemma trim_snoc:
  "rev (dropWhile (\<lambda>c. c = CHR ''_'') (rev (xs @ [c]))) =
     (if c = CHR ''_'' then rev (dropWhile (\<lambda>c. c = CHR ''_'') (rev xs)) else xs @ [c])"
  by simp

lemma trim_keeps:
  "ys \<noteq> [] \<Longrightarrow> last ys \<noteq> CHR ''_'' \<Longrightarrow>
   rev (dropWhile (\<lambda>c. c = CHR ''_'') (rev (xs @ ys))) = xs @ ys"
  by (cases ys rule: rev_cases) simp_all

lemma imageName_spec:
  assumes "replace_last_underscore (replace_nonword path) \<noteq> []"
    and "last (replace_last_underscore (replace_nonword path)) \<noteq> CHR ''_''"
  shows "imageName host path = spec_display_name host path"
proof -
  let ?r = "replace_nonword path"
  let ?p = "replace_last_underscore ?r"
  have "?r = ?p \<or> ?r = ?p @ ''_''"
    by (cases ?r rule: rev_cases) (simp_all add: replace_last_underscore_def)
  then have "rev (dropWhile (\<lambda>c. c = CHR ''_'') (rev (replace_nonword host @ ?r))) =
      replace_nonword host @ ?p"
  proof
    assume "?r = ?p"
    then show ?thesis using trim_keeps [OF assms, of "replace_nonword host"] by simp
  next
    assume r: "?r = ?p @ ''_''"
    have "rev (dropWhile (\<lambda>c. c = CHR ''_'') (rev ((replace_nonword host @ ?p) @ ''_''))) =
        rev (dropWhile (\<lambda>c. c = CHR ''_'') (rev (replace_nonword host @ ?p)))"
      by (subst trim_snoc) simp
    also have "\<dots> = replace_nonword host @ ?p"
      by (rule trim_keeps [OF assms])
    finally show ?thesis using r by simp
  qed
  then show ?thesis
    by (simp add: imageName_eq spec_display_name_def replace_nonword_append)
qed

lemma okfn_name:
  "imageName ''okfn.org'' ''/about/how-we-can-help-you/'' = ''okfn_org_about_how_we_can_help_you.png''"
  by (simp add: imageName_def replace_nonword_def replace_last_underscore_def is_word_char_def Let_def)

lemma ab_names:
  "imageName ''a.b'' ''/x//'' = ''a_b_x_.png''"
  "spec_display_name ''a.b'' ''/x//'' = ''a_b_x.png''"
  by (simp_all add: imageName_def spec_display_name_def replace_nonword_def
        replace_last_underscore_def is_word_char_def Let_def)


text \<open>The sample renderer succeeds, and the download goes under the name built from the URL.\<close>

lemma sample_render:
  "generate sample_env sample_world url options =
     (Inr ''/tmp/.png'', snd (generate sample_env sample_world url options))"
proof (rule prod_eqI)
  show "fst (generate sample_env sample_world url options) =
      fst (Inr ''/tmp/.png'', snd (generate sample_env sample_world url options))"
    by (simp add: generate_eq sample_env_def sample_world_def Let_def)
qed simp

lemma generate_handler_download:
  assumes "req ''url'' = Some url" and "url \<noteq> []"
    and "url_parse e url = \<lparr>protocol = Some scheme, hostname = Some host, pathname = Some path\<rparr>"
    and "scheme \<noteq> []" and "host \<noteq> []"
    and "generate e w url (Some (request_options req)) = (Inr file, w')"
  shows "generate_handler e w req = (Download file (imageName host path), snd (fs_unlink e w' file))"
  using assms by (simp add: generate_handler_def)

lemma sample_parse_ab:
  "url_parse sample_env ''http://a.b/x//'' =
     \<lparr>protocol = Some ''http:'', hostname = Some ''a.b'', pathname = Some ''/x//''\<rparr>"
  by (simp add: sample_env_def sample_url_parse_def)

lemma sample_parse_okfn:
  "url_parse sample_env ''http://okfn.org/about/how-we-can-help-you/'' =
     \<lparr>protocol = Some ''http:'', hostname = Some ''okfn.org'',
      pathname = Some ''/about/how-we-can-help-you/''\<rparr>"
  by (simp add: sample_env_def sample_url_parse_def)

text \<open>
  C8: a request to generate whose URL has no scheme or no host after \<^verbatim>\<open>url.parse\<close> (or is
  empty) is answered with status 400 and the matching message, and the world is left as
  it was: the renderer is not invoked.
\<close>

theorem generate_rejects_invalid_url:
  assumes "req ''url'' = Some url"
    and "protocol (url_parse e url) = None \<or> protocol (url_parse e url) = Some [] \<or>
         hostname (url_parse e url) = None \<or> hostname (url_parse e url) = Some []"
  shows "generate_handler e w req =
           (Send 400
              (Text (if url = [] then ''Missing url''
                     else if protocol (url_parse e url) = None \<or> protocol (url_parse e url) = Some []
                     then ''Invalid url, missing protocol''
                     else ''Invalid url, missing hostname'')), w) \<and>
         renders (new_events w (snd (generate_handler e w req))) = []"
proof -
  have h: "generate_handler e w req =
           (Send 400
              (Text (if url = [] then ''Missing url''
                     else if protocol (url_parse e url) = None \<or> protocol (url_parse e url) = Some []
                     then ''Invalid url, missing protocol''
                     else ''Invalid url, missing hostname'')), w)"
    using assms by (auto simp add: generate_handler_def Let_def split: option.splits)
  show ?thesis by (simp add: h new_events_def)
qed

theorem generate_rejects_invalid_url_witness:
  "request_of [(''url'', ''not-a-url'')] ''url'' = Some ''not-a-url'' \<and>
   protocol (url_parse sample_env ''not-a-url'') = None \<and>
   generate_handler sample_env sample_world (request_of [(''url'', ''not-a-url'')]) =
     (Send 400 (Text ''Invalid url, missing protocol''), sample_world) \<and>
   renders (new_events sample_world
      (snd (generate_handler sample_env sample_world (request_of [(''url'', ''not-a-url'')])))) = []"
proof -
  have a: "request_of [(''url'', ''not-a-url'')] ''url'' = Some ''not-a-url''"
    by (simp add: request_of_def)
  have p: "protocol (url_parse sample_env ''not-a-url'') = None"
    by (simp add: sample_env_def sample_url_parse_def)
  then have b: "protocol (url_parse sample_env ''not-a-url'') = None \<or>
      protocol (url_parse sample_env ''not-a-url'') = Some [] \<or>
      hostname (url_parse sample_env ''not-a-url'') = None \<or>
      hostname (url_parse sample_env ''not-a-url'') = Some []"
    by simp
  from generate_rejects_invalid_url
    [of "request_of [(''url'', ''not-a-url'')]" "''not-a-url''" sample_env sample_world, OF a b] a p
  show ?thesis by (simp add: new_events_def)
qed

text \<open>
  C9, as the specification has it, trims the underscores at the end of the name. The
  handler removes one underscore, at the end of the path part: for
  \<^verbatim>\<open>http://a.b/x//\<close> it names the download \<^verbatim>\<open>a_b_x_.png\<close>, where the specification's words
  give \<^verbatim>\<open>a_b_x.png\<close>.
\<close>

theorem display_name_trims_one_underscore:
  "fst (generate_handler sample_env sample_world (request_of [(''url'', ''http://a.b/x//'')])) =
     Download ''/tmp/.png'' ''a_b_x_.png'' \<and>
   imageName ''a.b'' ''/x//'' = ''a_b_x_.png'' \<and>
   spec_display_name ''a.b'' ''/x//'' = ''a_b_x.png''"
proof -
  let ?req = "request_of [(''url'', ''http://a.b/x//'')]"
  have a: "?req ''url'' = Some ''http://a.b/x//''" by (simp add: request_of_def)
  have b: "''http://a.b/x//'' \<noteq> []" "''http:'' \<noteq> []" "''a.b'' \<noteq> []" by simp_all
  have "fst (generate_handler sample_env sample_world ?req) =
      Download ''/tmp/.png'' (imageName ''a.b'' ''/x//'')"
    by (simp only: generate_handler_download [OF a b(1) sample_parse_ab b(2,3)
          sample_render [of "''http://a.b/x//''" "Some (request_options ?req)"]] fst_conv)
  then show ?thesis by (simp add: ab_names)
qed

text \<open>
  C9, amended: the name of the download is the host with every non-word character
  replaced by an underscore, then the path treated the same and with one underscore
  removed from its end if it ends in one, then \<^verbatim>\<open>.png\<close>. It is the name in the
  specification's words whenever what is left of the path is not empty and does not end
  in an underscore; for \<^verbatim>\<open>http://okfn.org/about/how-we-can-help-you/\<close> it is
  \<^verbatim>\<open>okfn_org_about_how_we_can_help_you.png\<close>.
\<close>

theorem display_name_of_download:
  assumes "req ''url'' = Some url" and "url \<noteq> []"
    and "url_parse e url = \<lparr>protocol = Some scheme, hostname = Some host, pathname = Some path\<rparr>"
    and "scheme \<noteq> []" and "host \<noteq> []"
    and "generate e w url (Some (request_options req)) = (Inr file, w')"
  shows "fst (generate_handler e w req) =
           Download file
             (replace_nonword host @ replace_last_underscore (replace_nonword path) @ ''.png'') \<and>
         (replace_last_underscore (replace_nonword path) \<noteq> [] \<and>
          last (replace_last_underscore (replace_nonword path)) \<noteq> CHR ''_'' \<longrightarrow>
            fst (generate_handler e w req) = Download file (spec_display_name host path)) \<and>
         imageName ''okfn.org'' ''/about/how-we-can-help-you/'' =
           ''okfn_org_about_how_we_can_help_you.png''"
proof (intro conjI impI)
  have h: "fst (generate_handler e w req) = Download file (imageName host path)"
    by (simp only: generate_handler_download [OF assms] fst_conv)
  show "fst (generate_handler e w req) =
      Download file (replace_nonword host @ replace_last_underscore (replace_nonword path) @ ''.png'')"
    by (simp only: h imageName_eq)
  show "fst (generate_handler e w req) = Download file (spec_display_name host path)"
    if "replace_last_underscore (replace_nonword path) \<noteq> [] \<and>
        last (replace_last_underscore (replace_nonword path)) \<noteq> CHR ''_''"
  proof -
    from that have "imageName host path = spec_display_name host path"
      by (intro imageName_spec) simp_all
    then show ?thesis by (simp only: h)
  qed
  show "imageName ''okfn.org'' ''/about/how-we-can-help-you/'' =
      ''okfn_org_about_how_we_can_help_you.png''"
    by (rule okfn_name)
qed

theorem display_name_of_download_witness:
  "request_of [(''url'', ''http://okfn.org/about/how-we-can-help-you/'')] ''url'' =
     Some ''http://okfn.org/about/how-we-can-help-you/'' \<and>
   url_parse sample_env ''http://okfn.org/about/how-we-can-help-you/'' =
     \<lparr>protocol = Some ''http:'', hostname = Some ''okfn.org'',
      pathname = Some ''/about/how-we-can-help-you/''\<rparr> \<and>
   fst (generate_handler sample_env sample_world
          (request_of [(''url'', ''http://okfn.org/about/how-we-can-help-you/'')])) =
     Download ''/tmp/.png'' ''okfn_org_about_how_we_can_help_you.png''"
proof -
  let ?u = "''http://okfn.org/about/how-we-can-help-you/''"
  let ?req = "request_of [(''url'', ?u)]"
  have a: "?req ''url'' = Some ?u" by (simp add: request_of_def)
  have b: "?u \<noteq> []" "''http:'' \<noteq> []" "''okfn.org'' \<noteq> []" by simp_all
  have n: "replace_nonword ''okfn.org'' @
      replace_last_underscore (replace_nonword ''/about/how-we-can-help-you/'') @ ''.png'' =
      ''okfn_org_about_how_we_can_help_you.png''"
    using okfn_name by (simp only: imageName_eq)
  from display_name_of_download [OF a b(1) sample_parse_okfn b(2,3)
      sample_render [of ?u "Some (request_options ?req)"]]
  have "fst (generate_handler sample_env sample_world ?req) =
       Download ''/tmp/.png'' ''okfn_org_about_how_we_can_help_you.png''"
    by (simp only: n)
  with a sample_parse_okfn show ?thesis by (intro conjI)
qed

section \<open>The handler that stores an image\<close>

lemma store_name_in_use:
  assumes "s3_objects w (getS3Key e name) = Some obj"
    and "getObject_fault e (getS3Key e name) = None"
  shows "store e w name url options =
           (Some \<lparr>code = 400, msg = Some ''A URL by that name already exists'', message = None\<rparr>,
            w\<lparr>trace := trace w @ [GetObject (AWS_S3_BUCKET e) (getS3Key e name)]\<rparr>)"
  using assms by (simp add: store_def checkFileExists_eq Let_def)

lemma sample_site1_in_use:
  "s3_objects sample_world (getS3Key sample_env ''site1'') = Some sample_object"
  "getObject_fault sample_env (getS3Key sample_env ''site1'') = None"
  by (simp_all add: getS3Key_def sample_env_def sample_world_def)

lemma sample_parse_not_a_url:
  "url_parse sample_env ''not-a-url'' = \<lparr>protocol = None, hostname = None, pathname = Some ''not-a-url''\<rparr>"
  by (simp add: sample_env_def sample_url_parse_def)

lemma sample_parse_example:
  "url_parse sample_env ''http://example.com/about/'' =
     \<lparr>protocol = Some ''http:'', hostname = Some ''example.com'', pathname = Some ''/about/''\<rparr>"
  by (simp add: sample_env_def sample_url_parse_def)

lemma store_handler_invalid_url:
  assumes "req ''name'' = Some name" and "name \<noteq> []"
    and "req ''url'' = Some url" and "url \<noteq> []"
    and "protocol (url_parse e url) = None \<or> protocol (url_parse e url) = Some [] \<or>
         hostname (url_parse e url) = None \<or> hostname (url_parse e url) = Some []"
  shows "store_handler e w req =
           (Send 400
              (Text (if protocol (url_parse e url) = None \<or> protocol (url_parse e url) = Some []
                     then ''Invalid url, missing protocol''
                     else ''Invalid url, missing hostname'')), w)"
  using assms by (auto simp add: store_handler_def Let_def)

text \<open>
  C5, as the specification has it, checks the name before the URL. The handler validates
  the URL before it calls \<^verbatim>\<open>store\<close>: for the name \<^verbatim>\<open>site1\<close>, which is in use, and the URL
  \<^verbatim>\<open>not-a-url\<close> the answer is "Invalid url, missing protocol", not "A URL by that name
  already exists", and the storage service is not asked.
\<close>

theorem store_handler_validates_url_first:
  "s3_objects sample_world (getS3Key sample_env ''site1'') = Some sample_object \<and>
   getObject_fault sample_env (getS3Key sample_env ''site1'') = None \<and>
   url_parse sample_env ''not-a-url'' =
     \<lparr>protocol = None, hostname = None, pathname = Some ''not-a-url''\<rparr> \<and>
   store_handler sample_env sample_world (request_of [(''name'', ''site1''), (''url'', ''not-a-url'')]) =
     (Send 400 (Text ''Invalid url, missing protocol''), sample_world) \<and>
   Send 400 (Text ''Invalid url, missing protocol'') \<noteq>
     Send 400 (Text ''A URL by that name already exists'')"
proof -
  let ?req = "request_of [(''name'', ''site1''), (''url'', ''not-a-url'')]"
  have a: "?req ''name'' = Some ''site1''" "?req ''url'' = Some ''not-a-url''"
    by (simp_all add: request_of_def)
  have b: "''site1'' \<noteq> []" "''not-a-url'' \<noteq> []" by simp_all
  have p: "protocol (url_parse sample_env ''not-a-url'') = None"
    by (simp add: sample_parse_not_a_url)
  then have c: "protocol (url_parse sample_env ''not-a-url'') = None \<or>
      protocol (url_parse sample_env ''not-a-url'') = Some [] \<or>
      hostname (url_parse sample_env ''not-a-url'') = None \<or>
      hostname (url_parse sample_env ''not-a-url'') = Some []"
    by simp
  have "store_handler sample_env sample_world ?req =
     (Send 400 (Text ''Invalid url, missing protocol''), sample_world)"
    using store_handler_invalid_url [of ?req "''site1''" "''not-a-url''" sample_env sample_world,
        OF a(1) b(1) a(2) b(2) c] p
    by simp
  then show ?thesis
    using sample_site1_in_use sample_parse_not_a_url by simp
qed

text \<open>
  C5, amended: for a request to store with a name that is in use (the storage service
  answering), the URL is looked at first. Without a scheme the answer is 400 "Invalid
  url, missing protocol", with a scheme and without a host 400 "Invalid url, missing
  hostname", both without any call to the storage service; only with both is the answer
  400 "A URL by that name already exists", after the existence check. \<^verbatim>\<open>store\<close> of
  \<^verbatim>\<open>api.js\<close>, called directly, looks at no URL and fails with that last error.
\<close>

theorem store_handler_url_before_name:
  assumes "req ''name'' = Some name" and "name \<noteq> []"
    and "req ''url'' = Some url" and "url \<noteq> []"
    and "s3_objects w (getS3Key e name) = Some obj"
    and "getObject_fault e (getS3Key e name) = None"
  shows "(protocol (url_parse e url) = None \<or> protocol (url_parse e url) = Some [] \<longrightarrow>
            store_handler e w req = (Send 400 (Text ''Invalid url, missing protocol''), w)) \<and>
         (protocol (url_parse e url) \<noteq> None \<and> protocol (url_parse e url) \<noteq> Some [] \<and>
          (hostname (url_parse e url) = None \<or> hostname (url_parse e url) = Some []) \<longrightarrow>
            store_handler e w req = (Send 400 (Text ''Invalid url, missing hostname''), w)) \<and>
         (protocol (url_parse e url) \<noteq> None \<and> protocol (url_parse e url) \<noteq> Some [] \<and>
          hostname (url_parse e url) \<noteq> None \<and> hostname (url_parse e url) \<noteq> Some [] \<longrightarrow>
            store_handler e w req =
              (Send 400 (Text ''A URL by that name already exists''),
               w\<lparr>trace := trace w @ [GetObject (AWS_S3_BUCKET e) (getS3Key e name)]\<rparr>)) \<and>
         fst (store e w name url (Some (request_options req))) =
           Some \<lparr>code = 400, msg = Some ''A URL by that name already exists'', message = None\<rparr>"
proof (intro conjI impI)
  note s = store_name_in_use [OF assms(5,6), of url "Some (request_options req)"]
  show "store_handler e w req = (Send 400 (Text ''Invalid url, missing protocol''), w)"
    if "protocol (url_parse e url) = None \<or> protocol (url_parse e url) = Some []"
    using that store_handler_invalid_url [OF assms(1-4), of e w] by auto
  show "store_handler e w req = (Send 400 (Text ''Invalid url, missing hostname''), w)"
    if "protocol (url_parse e url) \<noteq> None \<and> protocol (url_parse e url) \<noteq> Some [] \<and>
          (hostname (url_parse e url) = None \<or> hostname (url_parse e url) = Some [])"
    using that store_handler_invalid_url [OF assms(1-4), of e w] by auto
  show "store_handler e w req =
              (Send 400 (Text ''A URL by that name already exists''),
               w\<lparr>trace := trace w @ [GetObject (AWS_S3_BUCKET e) (getS3Key e name)]\<rparr>)"
    if "protocol (url_parse e url) \<noteq> None \<and> protocol (url_parse e url) \<noteq> Some [] \<and>
          hostname (url_parse e url) \<noteq> None \<and> hostname (url_parse e url) \<noteq> Some []"
    using that assms(1-4) by (simp add: store_handler_def Let_def s body_of_def)
  show "fst (store e w name url (Some (request_options req))) =
           Some \<lparr>code = 400, msg = Some ''A URL by that name already exists'', message = None\<rparr>"
    by (simp add: s)
qed

theorem store_handler_url_before_name_witness:
  "request_of [(''name'', ''site1''), (''url'', ''not-a-url'')] ''name'' = Some ''site1'' \<and>
   request_of [(''name'', ''site1''), (''url'', ''not-a-url'')] ''url'' = Some ''not-a-url'' \<and>
   s3_objects sample_world (getS3Key sample_env ''site1'') = Some sample_object \<and>
   getObject_fault sample_env (getS3Key sample_env ''site1'') = None \<and>
   protocol (url_parse sample_env ''not-a-url'') = None \<and>
   store_handler sample_env sample_world (request_of [(''name'', ''site1''), (''url'', ''not-a-url'')]) =
     (Send 400 (Text ''Invalid url, missing protocol''), sample_world) \<and>
   fst (store sample_env sample_world ''site1'' ''not-a-url''
          (Some (request_options (request_of [(''name'', ''site1''), (''url'', ''not-a-url'')])))) =
     Some \<lparr>code = 400, msg = Some ''A URL by that name already exists'', message = None\<rparr>"
proof -
  let ?req = "request_of [(''name'', ''site1''), (''url'', ''not-a-url'')]"
  have a: "?req ''name'' = Some ''site1''" "?req ''url'' = Some ''not-a-url''"
    by (simp_all add: request_of_def)
  have b: "''site1'' \<noteq> []" "''not-a-url'' \<noteq> []" by simp_all
  have p: "protocol (url_parse sample_env ''not-a-url'') = None"
    by (simp add: sample_parse_not_a_url)
  from store_handler_url_before_name
    [of ?req "''site1''" "''not-a-url''" sample_world sample_env sample_object,
     OF a(1) b(1) a(2) b(2) sample_site1_in_use] p
  have "store_handler sample_env sample_world ?req =
      (Send 400 (Text ''Invalid url, missing protocol''), sample_world) \<and>
    fst (store sample_env sample_world ''site1'' ''not-a-url'' (Some (request_options ?req))) =
     Some \<lparr>code = 400, msg = Some ''A URL by that name already exists'', message = None\<rparr>"
    by blast
  with a p sample_site1_in_use show ?thesis by (intro conjI) simp_all
qed

section \<open>Fetching a stored image\<close>

lemma getStoredImageUrl_eq:
  "getStoredImageUrl e w name =
     (let key = getS3Key e name;
          w' = w\<lparr>trace := trace w @ [GetObject (AWS_S3_BUCKET e) key]\<rparr>
      in case getObject_fault e key of
           Some err \<Rightarrow>
             (if aws_code err \<noteq> ''NoSuchKey''
              then Inl \<lparr>code = 500, msg = None, message = Some (aws_message err)\<rparr>
              else Inl \<lparr>code = 404, msg = Some ''A URL by that name does not exist'', message = None\<rparr>,
              w')
         | None \<Rightarrow>
             (case s3_objects w key of
                None \<Rightarrow> Inl \<lparr>code = 404, msg = Some ''A URL by that name does not exist'', message = None\<rparr>
              | Some obj \<Rightarrow> Inr (getSignedUrl e ''getObject'' (AWS_S3_BUCKET e) key),
              w'))"
  by (simp add: getStoredImageUrl_def checkFileExists_eq Let_def split: option.splits)

lemma getStoredImage_eq:
  "req ''name'' = Some name \<Longrightarrow>
   fst (getStoredImage e w req) =
     (case fst (getStoredImageUrl e w name) of
        Inl err \<Rightarrow> Send (code err) (body_of (message err))
      | Inr url \<Rightarrow> Redirect url)"
  by (simp add: getStoredImage_def case_prod_beta split: sum.splits)

text \<open>
  C3, as the specification has it, rejects an empty name as invalid. Neither
  \<^verbatim>\<open>getStoredImageUrl\<close> nor its handler looks at the name: the empty name goes to the
  storage service like any other, with 404 when there is nothing under its key and a
  signed URL when there is something.
\<close>

theorem fetch_empty_name_not_validated:
  "fst (getStoredImageUrl sample_env sample_world []) =
     Inl \<lparr>code = 404, msg = Some ''A URL by that name does not exist'', message = None\<rparr> \<and>
   fst (getStoredImage sample_env sample_world (request_of [(''name'', [])])) = Send 404 No_body \<and>
   fst (getStoredImageUrl sample_env (sample_world\<lparr>s3_objects := [''images'' \<mapsto> sample_object]\<rparr>) []) =
     Inr ''https://s3/shots/images?Signature''"
proof -
  have k: "getS3Key sample_env [] = ''images''"
    by (simp add: getS3Key_def sample_env_def)
  have f: "getObject_fault sample_env ''images'' = None"
    "getSignedUrl sample_env ''getObject'' (AWS_S3_BUCKET sample_env) ''images'' =
       ''https://s3/shots/images?Signature''"
    by (simp_all add: sample_env_def)
  have o: "s3_objects sample_world ''images'' = None"
    by (simp add: sample_world_def)
  have a: "fst (getStoredImageUrl sample_env sample_world []) =
     Inl \<lparr>code = 404, msg = Some ''A URL by that name does not exist'', message = None\<rparr>"
    by (simp add: getStoredImageUrl_eq k f o Let_def)
  have b: "fst (getStoredImage sample_env sample_world (request_of [(''name'', [])])) = Send 404 No_body"
    by (simp add: getStoredImage_eq [of _ "[]"] request_of_def a body_of_def)
  have c: "fst (getStoredImageUrl sample_env (sample_world\<lparr>s3_objects := [''images'' \<mapsto> sample_object]\<rparr>) []) =
     Inr ''https://s3/shots/images?Signature''"
    by (simp add: getStoredImageUrl_eq k f Let_def)
  from a b c show ?thesis by (intro conjI)
qed

text \<open>
  C3, amended: for any name, empty or not, \<^verbatim>\<open>getStoredImageUrl\<close> asks the storage service
  once for the key that \<^verbatim>\<open>path.join\<close> makes of the configured directory and the name. When
  the service has no object there the call fails with code 404 (the handler answers 404);
  when it has one the call returns the signed URL for reading that key (the handler
  redirects to it); when the service fails otherwise the call fails with code 500 and the
  service's message.
\<close>

theorem getStoredImageUrl_outcomes:
  "(getObject_fault e (getS3Key e name) = None \<and> s3_objects w (getS3Key e name) = None \<longrightarrow>
      fst (getStoredImageUrl e w name) =
        Inl \<lparr>code = 404, msg = Some ''A URL by that name does not exist'', message = None\<rparr> \<and>
      (req ''name'' = Some name \<longrightarrow> fst (getStoredImage e w req) = Send 404 No_body)) \<and>
   (getObject_fault e (getS3Key e name) = None \<and> s3_objects w (getS3Key e name) = Some obj \<longrightarrow>
      fst (getStoredImageUrl e w name) =
        Inr (getSignedUrl e ''getObject'' (AWS_S3_BUCKET e) (path_join e (AWS_S3_DIRECTORY e) name)) \<and>
      (req ''name'' = Some name \<longrightarrow>
         fst (getStoredImage e w req) =
           Redirect (getSignedUrl e ''getObject'' (AWS_S3_BUCKET e)
                       (path_join e (AWS_S3_DIRECTORY e) name)))) \<and>
   (getObject_fault e (getS3Key e name) = Some err \<and> aws_code err \<noteq> ''NoSuchKey'' \<longrightarrow>
      fst (getStoredImageUrl e w name) =
        Inl \<lparr>code = 500, msg = None, message = Some (aws_message err)\<rparr> \<and>
      (req ''name'' = Some name \<longrightarrow>
         fst (getStoredImage e w req) = Send 500 (Text (aws_message err)))) \<and>
   snd (getStoredImageUrl e w name) =
     w\<lparr>trace := trace w @ [GetObject (AWS_S3_BUCKET e) (getS3Key e name)]\<rparr>"
proof (intro conjI impI)
  show "snd (getStoredImageUrl e w name) =
     w\<lparr>trace := trace w @ [GetObject (AWS_S3_BUCKET e) (getS3Key e name)]\<rparr>"
    by (simp add: getStoredImageUrl_eq Let_def split: option.splits)
qed (simp_all add: getStoredImage_eq getStoredImageUrl_eq body_of_def getS3Key_def Let_def)

theorem getStoredImageUrl_outcomes_witness:
  "getObject_fault sample_env (getS3Key sample_env ''site1'') = None \<and>
   s3_objects sample_world (getS3Key sample_env ''site1'') = Some sample_object \<and>
   request_of [(''name'', ''site1'')] ''name'' = Some ''site1'' \<and>
   fst (getStoredImage sample_env sample_world (request_of [(''name'', ''site1'')])) =
     Redirect ''https://s3/shots/images/site1?Signature''"
proof -
  have k: "getS3Key sample_env ''site1'' = ''images/site1''"
    by (simp add: getS3Key_def sample_env_def)
  have f: "getObject_fault sample_env (getS3Key sample_env ''site1'') = None"
    by (simp add: sample_env_def)
  have o: "s3_objects sample_world (getS3Key sample_env ''site1'') = Some sample_object"
    by (simp add: k sample_world_def)
  have r: "request_of [(''name'', ''site1'')] ''name'' = Some ''site1''"
    by (simp add: request_of_def)
  have u: "getSignedUrl sample_env ''getObject'' (AWS_S3_BUCKET sample_env)
      (path_join sample_env (AWS_S3_DIRECTORY sample_env) ''site1'') =
      ''https://s3/shots/images/site1?Signature''"
    by (simp add: sample_env_def)
  from getStoredImageUrl_outcomes
    [of sample_env "''site1''" sample_world "request_of [(''name'', ''site1'')]" sample_object] f o r
  have "fst (getStoredImage sample_env sample_world (request_of [(''name'', ''site1'')])) =
      Redirect (getSignedUrl sample_env ''getObject'' (AWS_S3_BUCKET sample_env)
                       (path_join sample_env (AWS_S3_DIRECTORY sample_env) ''site1''))"
    by blast
  then have "fst (getStoredImage sample_env sample_world (request_of [(''name'', ''site1'')])) =
     Redirect ''https://s3/shots/images/site1?Signature''"
    by (simp only: u)
  with f o r show ?thesis by (intro conjI)
qed

end
